theory Spec2Isabelle
  imports Complex_Main "HOL-Library.Sublist" "HOL-Library.AList"
begin

section \<open>Data model\<close>

text \<open>
  The gateway exists in two variants. Variant A (the file with the in-memory cache, the
  rate limiter, \<open>handleApiError\<close>, the listing route and the detail route with field
  selection) and variant B (\<open>server.js\<close>: bearer authentication, \<open>formatCountry\<close> and the
  detail route with the full-text fallback).

  Strings are byte sequences (the UTF-8 encoding of the JavaScript string); the Portuguese
  messages of the source are spelled with their UTF-8 bytes.
\<close>

datatype json =
    JNull
  | JBool bool
  | JNum rat
  | JStr string
  | JArr "json list"
  | JObj "(string \<times> json) list"

text \<open>
  A country object of the upstream payload: its own properties, as an association list.
  Property lookup \<open>o[k]\<close> is \<open>map_of\<close>.
\<close>

type_synonym country = "(string \<times> json) list"

text \<open>JavaScript truthiness of a JSON value, as tested by \<open>if (v)\<close>.\<close>

fun truthy :: "json \<Rightarrow> bool" where
  "truthy JNull = False"
| "truthy (JBool b) = b"
| "truthy (JNum n) = (n \<noteq> 0)"
| "truthy (JStr s) = (s \<noteq> [])"
| "truthy (JArr _) = True"
| "truthy (JObj _) = True"

text \<open>
  What \<open>res.json(v)\<close> hands to \<open>res.send\<close>: the JSON text of \<open>v\<close>, or \<open>undefined\<close>
  when \<open>v\<close> is \<open>undefined\<close>. The JSON text of a value is never the empty string, so it is
  represented by the value itself.
\<close>

datatype body = NoBody | JsonBody json


record http_response =
  status :: int
  content :: body

text \<open>
  What the HTTP client returns or throws. A thrown value is an error object: \<open>response\<close>
  is set when the upstream answered with an error status, \<open>request\<close> when a request was
  made (axios sets it also when no answer came), and a \<open>TypeError\<close> raised by the handler
  itself has neither.
\<close>

record upstream_response =
  up_status :: int
  up_data :: json

record js_error =
  response :: "upstream_response option"
  request :: bool
  message :: string

definition TypeError :: "string \<Rightarrow> js_error" where
  "TypeError m = \<lparr>response = None, request = False, message = m\<rparr>"

section \<open>Variant A: error classification\<close>

definition msg_external :: string where
  "msg_external = ''Erro na API externa''"

definition msg_unavailable :: string where
  "msg_unavailable = ''Servi'' @ [CHR 0xC3, CHR 0xA7] @ ''o indispon'' @ [CHR 0xC3, CHR 0xAD] @ ''vel''"

definition msg_no_answer :: string where
  "msg_no_answer = ''A API de pa'' @ [CHR 0xC3, CHR 0xAD] @ ''ses n'' @ [CHR 0xC3, CHR 0xA3] @ ''o respondeu''"

definition msg_internal :: string where
  "msg_internal = ''Erro interno no servidor''"

definition handleApiError :: "js_error \<Rightarrow> http_response" where
  "handleApiError error =
     (case response error of
        Some r \<Rightarrow>
          \<lparr>status = up_status r,
           content = JsonBody (JObj [(''error'', JStr msg_external), (''details'', up_data r)])\<rparr>
      | None \<Rightarrow>
          if request error then
            \<lparr>status = 503,
             content = JsonBody (JObj [(''error'', JStr msg_unavailable),
                                       (''message'', JStr msg_no_answer)])\<rparr>
          else
            \<lparr>status = 500, content = JsonBody (JObj [(''error'', JStr msg_internal)])\<rparr>)"

section \<open>Variant A: the response cache\<close>




record request =
  http_method :: string
  originalUrl :: string

definition cache_key :: "request \<Rightarrow> string" where
  "cache_key req = ''__express__'' @ originalUrl req"





text \<open>
  The cache key as the spec describes it, for comparison: requests are logically identical
  when they have the same method, the same path and the same set of query parameters,
  parameter names compared without case. \<open>render_url\<close> is the URL a client writes for a
  path and a list of query parameters, which Express hands over as \<open>originalUrl\<close>.
\<close>

definition lower_char :: "char \<Rightarrow> char" where
  "lower_char c =
     (case map_of (zip ''ABCDEFGHIJKLMNOPQRSTUVWXYZ'' ''abcdefghijklmnopqrstuvwxyz'') c of
        Some l \<Rightarrow> l
      | None \<Rightarrow> c)"

text \<open>\<open>toLowerCase\<close> on the ASCII letters; other bytes are left as they are.\<close>

definition toLowerCase :: "string \<Rightarrow> string" where
  "toLowerCase s = map lower_char s"

record logical_request =
  l_method :: string
  l_path :: string
  l_query :: "(string \<times> string) list"

fun join_with :: "string \<Rightarrow> string list \<Rightarrow> string" where
  "join_with sep [] = []"
| "join_with sep [x] = x"
| "join_with sep (x # y # ys) = x @ sep @ join_with sep (y # ys)"

definition render_url :: "string \<Rightarrow> (string \<times> string) list \<Rightarrow> string" where
  "render_url path q =
     (if q = [] then path
      else path @ ''?'' @ join_with ''&'' (map (\<lambda>(k, v). k @ ''='' @ v) q))"

definition to_request :: "logical_request \<Rightarrow> request" where
  "to_request r = \<lparr>http_method = l_method r, originalUrl = render_url (l_path r) (l_query r)\<rparr>"

definition spec_same_request :: "logical_request \<Rightarrow> logical_request \<Rightarrow> bool" where
  "spec_same_request r1 r2 \<longleftrightarrow>
     l_method r1 = l_method r2 \<and> l_path r1 = l_path r2 \<and>
     set (map (\<lambda>(k, v). (toLowerCase k, v)) (l_query r1)) =
     set (map (\<lambda>(k, v). (toLowerCase k, v)) (l_query r2))"

section \<open>Variant A: listing with search and pagination\<close>









section \<open>Variant A: country details with field selection\<close>

text \<open>\<open>s.split(c)\<close> for a one-character separator.\<close>

fun js_split :: "char \<Rightarrow> string \<Rightarrow> string list" where
  "js_split c [] = [[]]"
| "js_split c (x # xs) =
     (if x = c then [] # js_split c xs
      else (case js_split c xs of w # ws \<Rightarrow> (x # w) # ws | [] \<Rightarrow> [[x]]))"

text \<open>
  One step of the \<open>forEach\<close>: \<open>if (countryData[field]) filteredData[field] = countryData[field]\<close>.
  A name the record does not own is either undefined or an inherited member of
  \<open>Object.prototype\<close>, which never reaches the JSON output; assigning to \<open>__proto__\<close>
  creates no property.
\<close>

definition select_field :: "country \<Rightarrow> string \<Rightarrow> country \<Rightarrow> country" where
  "select_field countryData field filteredData =
     (case map_of countryData field of
        None \<Rightarrow> filteredData
      | Some v \<Rightarrow>
          if truthy v \<and> field \<noteq> ''__proto__'' then AList.update field v filteredData
          else filteredData)"

definition selectFields :: "country \<Rightarrow> string \<Rightarrow> country" where
  "selectFields countryData fieldsParam =
     fold (select_field countryData) (js_split CHR '','' fieldsParam) []"

text \<open>
  The detail handler of variant A, given what the upstream call returned or threw.
  \<open>response.data[0]\<close> of an empty array is \<open>undefined\<close>; reading a property of
  \<open>undefined\<close>, or indexing an absent payload, throws a \<open>TypeError\<close>, which the handler's
  \<open>catch\<close> passes to \<open>handleApiError\<close>.
\<close>

definition countryDetailsA :: "js_error + country list option \<Rightarrow> string option \<Rightarrow> http_response" where
  "countryDetailsA upstream fields_q =
     (case upstream of
        Inl e \<Rightarrow> handleApiError e
      | Inr None \<Rightarrow> handleApiError (TypeError ''Cannot read properties of undefined'')
      | Inr (Some d) \<Rightarrow>
          (let countryData = (case d of [] \<Rightarrow> None | x # _ \<Rightarrow> Some x);
               fieldsParam = (case fields_q of None \<Rightarrow> [] | Some f \<Rightarrow> f)
           in if fieldsParam \<noteq> [] then
                (case countryData of
                   None \<Rightarrow> handleApiError (TypeError ''Cannot read properties of undefined'')
                 | Some cd \<Rightarrow> \<lparr>status = 200, content = JsonBody (JObj (selectFields cd fieldsParam))\<rparr>)
              else
                \<lparr>status = 200,
                 content = (case countryData of None \<Rightarrow> NoBody | Some cd \<Rightarrow> JsonBody (JObj cd))\<rparr>))"

section \<open>Variant B: authentication\<close>

definition msg_unauthorized :: string where
  "msg_unauthorized = ''N'' @ [CHR 0xC3, CHR 0xA3] @ ''o autorizado''"

definition unauthorized :: http_response where
  "unauthorized = \<lparr>status = 401, content = JsonBody (JObj [(''error'', JStr msg_unauthorized)])\<rparr>"

definition nth_opt :: "'a list \<Rightarrow> nat \<Rightarrow> 'a option" where
  "nth_opt xs i = (if i < length xs then Some (xs ! i) else None)"

text \<open>The token the guard reads: \<open>auth.split(' ')[1]\<close>.\<close>

definition bearer_token :: "string \<Rightarrow> string option" where
  "bearer_token auth = nth_opt (js_split CHR '' '' auth) 1"

text \<open>
  \<open>authMiddleware\<close>: \<open>Some\<close> response when the request is rejected, \<open>None\<close> when \<open>next()\<close>
  is called. The header is \<open>None\<close> when the request has no \<open>Authorization\<close> header.
\<close>

definition authMiddleware :: "string \<Rightarrow> string option \<Rightarrow> http_response option" where
  "authMiddleware AUTH_TOKEN auth_q =
     (case auth_q of
        None \<Rightarrow> Some unauthorized
      | Some auth \<Rightarrow>
          if auth = [] \<or> \<not> prefix ''Bearer '' auth \<or> bearer_token auth \<noteq> Some AUTH_TOKEN
          then Some unauthorized
          else None)"

text \<open>
  The spec's wording of an invalid credential, for comparison: the header is missing, or
  it lacks the \<open>Bearer \<close> prefix, or the token it carries is not the configured secret.
\<close>

definition spec_invalid_credential :: "string \<Rightarrow> string option \<Rightarrow> bool" where
  "spec_invalid_credential AUTH_TOKEN auth_q =
     (case auth_q of
        None \<Rightarrow> True
      | Some auth \<Rightarrow> \<not> prefix ''Bearer '' auth \<or> bearer_token auth \<noteq> Some AUTH_TOKEN)"

section \<open>Variant B: fetching a country by name\<close>

definition COUNTRIES_API :: string where
  "COUNTRIES_API = ''https://restcountries.com/v3.1''"

definition unreserved :: "char \<Rightarrow> bool" where
  "unreserved c \<longleftrightarrow>
     c \<in> set (''ABCDEFGHIJKLMNOPQRSTUVWXYZabcdefghijklmnopqrstuvwxyz0123456789-_.!~*()''
              @ [CHR 0x27])"

definition hex_digit :: "nat \<Rightarrow> char" where
  "hex_digit n = ''0123456789ABCDEF'' ! (n mod 16)"

definition encodeURIComponent :: "string \<Rightarrow> string" where
  "encodeURIComponent s =
     concat (map (\<lambda>c. if unreserved c then [c]
                      else [CHR ''%'', hex_digit ((of_char c :: nat) div 16),
                            hex_digit ((of_char c :: nat) mod 16)]) s)"

definition url_fullText :: "string \<Rightarrow> string" where
  "url_fullText name = COUNTRIES_API @ ''/name/'' @ encodeURIComponent name @ ''?fullText=true''"

definition url_plain :: "string \<Rightarrow> string" where
  "url_plain name = COUNTRIES_API @ ''/name/'' @ encodeURIComponent name"

text \<open>
  The upstream service: what a GET of a URL returns or throws, given the URLs requested
  before it. \<open>axios_get\<close> performs one request and appends it to the log of requests.
\<close>

type_synonym transport = "string list \<Rightarrow> string \<Rightarrow> js_error + country list option"

definition axios_get ::
  "transport \<Rightarrow> string \<Rightarrow> string list \<Rightarrow> (js_error + country list option) \<times> string list" where
  "axios_get tr url reqs = (tr reqs url, reqs @ [url])"

definition retryable :: "js_error \<Rightarrow> bool" where
  "retryable error =
     (case response error of None \<Rightarrow> False | Some r \<Rightarrow> up_status r = 400 \<or> up_status r = 404)"

text \<open>The inner \<open>try\<close>/\<open>catch\<close> of the detail handler: the fetch with its fallback.\<close>

definition fetchByName ::
  "transport \<Rightarrow> string \<Rightarrow> string list \<Rightarrow> (js_error + country list option) \<times> string list" where
  "fetchByName tr name reqs =
     (case axios_get tr (url_fullText name) reqs of
        (Inr resp, reqs1) \<Rightarrow> (Inr resp, reqs1)
      | (Inl error, reqs1) \<Rightarrow>
          if retryable error then axios_get tr (url_plain name) reqs1
          else (Inl error, reqs1))"

definition msg_not_found :: string where
  "msg_not_found = ''Pa'' @ [CHR 0xC3, CHR 0xAD] @ ''s n'' @ [CHR 0xC3, CHR 0xA3] @ ''o encontrado''"

definition msg_no_match :: string where
  "msg_no_match = ''Nenhum pa'' @ [CHR 0xC3, CHR 0xAD] @ ''s corresponde ao termo pesquisado''"

definition not_found_empty :: http_response where
  "not_found_empty =
     \<lparr>status = 404,
      content = JsonBody (JObj [(''error'', JStr msg_not_found), (''message'', JStr msg_no_match)])\<rparr>"

definition not_found_failure :: "js_error \<Rightarrow> http_response" where
  "not_found_failure error =
     \<lparr>status = 404,
      content = JsonBody (JObj [(''error'', JStr msg_not_found),
                                (''details'', JStr (message error))])\<rparr>"

text \<open>
  The detail handler of variant B. \<open>formatCountry\<close> is a parameter: it turns the first
  record into the JSON sent, or throws.
\<close>

definition countryDetailsB ::
  "transport \<Rightarrow> (country \<Rightarrow> js_error + json) \<Rightarrow> string \<Rightarrow> string list \<Rightarrow> http_response \<times> string list" where
  "countryDetailsB tr formatCountry name reqs =
     (case fetchByName tr name reqs of
        (Inl error, reqs1) \<Rightarrow> (not_found_failure error, reqs1)
      | (Inr None, reqs1) \<Rightarrow> (not_found_empty, reqs1)
      | (Inr (Some []), reqs1) \<Rightarrow> (not_found_empty, reqs1)
      | (Inr (Some (first # _)), reqs1) \<Rightarrow>
          (case formatCountry first of
             Inl error \<Rightarrow> (not_found_failure error, reqs1)
           | Inr formatted \<Rightarrow> (\<lparr>status = 200, content = JsonBody formatted\<rparr>, reqs1)))"

section \<open>Sample data\<close>


definition br :: country where
  "br = [(''name'', JObj [(''common'', JStr ''Brazil'')]), (''cca2'', JStr ''BR''),
         (''landlocked'', JBool False), (''population'', JNum 212559409)]"


definition ae :: country where
  "ae = [(''name'', JObj [(''common'', JStr ''United Arab Emirates'')]), (''cca2'', JStr ''AE'')]"


definition error_status :: "int \<Rightarrow> js_error" where
  "error_status n =
     \<lparr>response = Some \<lparr>up_status = n, up_data = JObj [(''message'', JStr ''upstream'')]\<rparr>,
      request = True, message = ''Request failed''\<rparr>"

definition error_timeout :: js_error where
  "error_timeout = \<lparr>response = None, request = True, message = ''timeout of 5000ms exceeded''\<rparr>"

text \<open>An upstream whose first answer is the given failure and whose later answers are the given payload.\<close>

definition fails_once :: "js_error \<Rightarrow> country list \<Rightarrow> transport" where
  "fails_once e payload = (\<lambda>reqs url. if reqs = [] then Inl e else Inr (Some payload))"

text \<open>A formatter that sends the record as it is.\<close>

definition Inr_fmt :: "country \<Rightarrow> js_error + json" where
  "Inr_fmt c = Inr (JObj c)"



section \<open>Error classification: properties\<close>

text \<open>
  C4. The error classifier: an error carrying an upstream response is answered with that
  response's status and a body whose \<open>details\<close> are the upstream data; an error with a
  request but no response is answered 503 with the message that the countries API did not
  respond; any other error is answered 500 with one fixed body, the same for every such
  error, so nothing of the error reaches the client.
\<close>

theorem handleApiError_classifies:
  "(response e = Some r \<longrightarrow>
      status (handleApiError e) = up_status r \<and>
      (\<exists>props. content (handleApiError e) = JsonBody (JObj props) \<and>
               map_of props ''details'' = Some (up_data r)))
   \<and> (response e = None \<and> request e \<longrightarrow>
      handleApiError e =
        \<lparr>status = 503,
         content = JsonBody (JObj [(''error'', JStr msg_unavailable),
                                   (''message'', JStr msg_no_answer)])\<rparr>)
   \<and> (response e = None \<and> \<not> request e \<longrightarrow>
      handleApiError e =
        \<lparr>status = 500, content = JsonBody (JObj [(''error'', JStr msg_internal)])\<rparr>)"
  by (simp add: handleApiError_def)

theorem handleApiError_classifies_witness:
  "status (handleApiError (error_status 502)) = 502
   \<and> status (handleApiError error_timeout) = 503
   \<and> handleApiError (TypeError ''boom'') = handleApiError (TypeError ''other'')
   \<and> status (handleApiError (TypeError ''boom'')) = 500"
  using handleApiError_classifies
          [of "error_status 502" "\<lparr>up_status = 502, up_data = JObj [(''message'', JStr ''upstream'')]\<rparr>"]
        handleApiError_classifies [of error_timeout "\<lparr>up_status = 0, up_data = JNull\<rparr>"]
        handleApiError_classifies [of "TypeError ''boom''" "\<lparr>up_status = 0, up_data = JNull\<rparr>"]
        handleApiError_classifies [of "TypeError ''other''" "\<lparr>up_status = 0, up_data = JNull\<rparr>"]
  by (simp add: TypeError_def error_status_def error_timeout_def)

section \<open>The cache key\<close>

text \<open>
  C5, as amended. The cache key is a function of the request's \<open>originalUrl\<close> alone (the
  path and the query string as the client wrote them): two requests map to the same cache
  entry exactly when their \<open>originalUrl\<close>s are the same string. The method is not part of
  the key and the query parameters are neither sorted nor case-normalised.
\<close>

theorem cache_key_by_originalUrl:
  "cache_key r1 = cache_key r2 \<longleftrightarrow> originalUrl r1 = originalUrl r2"
  by (simp add: cache_key_def)

text \<open>
  Two requests with the same method, path and set of query parameters, written in a
  different order, get different keys.
\<close>

theorem cache_key_not_normalized:
  "spec_same_request
     \<lparr>l_method = ''GET'', l_path = ''/api/countries'',
      l_query = [(''page'', ''1''), (''limit'', ''5'')]\<rparr>
     \<lparr>l_method = ''GET'', l_path = ''/api/countries'',
      l_query = [(''limit'', ''5''), (''page'', ''1'')]\<rparr>
   \<and> cache_key (to_request
         \<lparr>l_method = ''GET'', l_path = ''/api/countries'',
          l_query = [(''page'', ''1''), (''limit'', ''5'')]\<rparr>)
     \<noteq> cache_key (to_request
         \<lparr>l_method = ''GET'', l_path = ''/api/countries'',
          l_query = [(''limit'', ''5''), (''page'', ''1'')]\<rparr>)"
  by (auto simp add: spec_same_request_def cache_key_def to_request_def render_url_def
                     toLowerCase_def lower_char_def)

section \<open>Replay from the cache\<close>








section \<open>Fetching by name: the fallback\<close>

text \<open>
  C1. For every name, \<open>fetchByName\<close> first requests the exact-match URL (with
  \<open>fullText=true\<close>). If that request fails with an upstream status of 400 or 404, exactly
  one more request is made, for the URL without \<open>fullText\<close>, and its outcome is the result.
  In every other case, success or any other failure, no second request is made and the
  outcome of the first request is the result.
\<close>

theorem fetchByName_fallback:
  "(if \<exists>e r. tr reqs (url_fullText name) = Inl e \<and> response e = Some r \<and>
              (up_status r = 400 \<or> up_status r = 404)
    then fetchByName tr name reqs =
           (tr (reqs @ [url_fullText name]) (url_plain name),
            reqs @ [url_fullText name, url_plain name])
    else fetchByName tr name reqs = (tr reqs (url_fullText name), reqs @ [url_fullText name]))"
  by (auto simp: fetchByName_def axios_get_def retryable_def split: sum.splits option.splits)

theorem fetchByName_fallback_witness:
  "fetchByName (fails_once (error_status 400) [ae]) ''congo'' []
     = (Inr (Some [ae]), [url_fullText ''congo'', url_plain ''congo''])
   \<and> fetchByName (fails_once (error_status 500) [ae]) ''congo'' []
     = (Inl (error_status 500), [url_fullText ''congo''])
   \<and> fetchByName (fails_once error_timeout [ae]) ''congo'' []
     = (Inl error_timeout, [url_fullText ''congo''])
   \<and> url_fullText ''congo'' = ''https://restcountries.com/v3.1/name/congo?fullText=true''
   \<and> url_plain ''congo'' = ''https://restcountries.com/v3.1/name/congo''"
  using fetchByName_fallback [of "fails_once (error_status 400) [ae]" "[]" "''congo''"]
        fetchByName_fallback [of "fails_once (error_status 500) [ae]" "[]" "''congo''"]
        fetchByName_fallback [of "fails_once error_timeout [ae]" "[]" "''congo''"]
  by (simp add: fails_once_def error_status_def error_timeout_def url_fullText_def url_plain_def
        COUNTRIES_API_def encodeURIComponent_def unreserved_def)

section \<open>The detail handler of variant B: empty results\<close>

text \<open>
  C7. When the fetch, fallback included, succeeds with an empty result set, the detail
  handler of variant B answers 404 with the not-found body (\<open>error\<close> and \<open>message\<close>). A
  failed fetch is answered 404 as well, with a body carrying the failure's \<open>details\<close>;
  the two bodies are never equal, so the empty result is told apart from a failure by
  its body.
\<close>

theorem empty_result_not_found:
  "(fst (fetchByName tr name reqs) = Inr (Some []) \<longrightarrow>
      fst (countryDetailsB tr fmt name reqs) = not_found_empty) \<and>
   (\<forall>e. fst (fetchByName tr name reqs) = Inl e \<longrightarrow>
      fst (countryDetailsB tr fmt name reqs) = not_found_failure e) \<and>
   status not_found_empty = 404 \<and>
   content not_found_empty =
     JsonBody (JObj [(''error'', JStr msg_not_found), (''message'', JStr msg_no_match)]) \<and>
   (\<forall>e. content not_found_empty \<noteq> content (not_found_failure e))"
  by (auto simp: countryDetailsB_def not_found_empty_def not_found_failure_def
           split: prod.splits sum.splits option.splits list.splits)

theorem empty_result_not_found_witness:
  "fst (fetchByName (fails_once (error_status 404) []) ''atlantis'' []) = Inr (Some [])
   \<and> fst (countryDetailsB (fails_once (error_status 404) []) Inr_fmt ''atlantis'' [])
       = not_found_empty
   \<and> fst (fetchByName (fails_once error_timeout []) ''atlantis'' []) = Inl error_timeout
   \<and> fst (countryDetailsB (fails_once error_timeout []) Inr_fmt ''atlantis'' [])
       = not_found_failure error_timeout
   \<and> not_found_empty \<noteq> not_found_failure error_timeout"
proof -
  have a: "fst (fetchByName (fails_once (error_status 404) []) ''atlantis'' []) = Inr (Some [])"
    by (simp add: fetchByName_def axios_get_def fails_once_def error_status_def retryable_def)
  have b: "fst (fetchByName (fails_once error_timeout []) ''atlantis'' []) = Inl error_timeout"
    by (simp add: fetchByName_def axios_get_def fails_once_def error_timeout_def retryable_def)
  have c: "content not_found_empty \<noteq> content (not_found_failure error_timeout)"
    using empty_result_not_found [of "fails_once error_timeout []" "''atlantis''" "[]" Inr_fmt]
    by blast
  then have d: "not_found_empty \<noteq> not_found_failure error_timeout"
    by auto
  show ?thesis
    using a b d
          empty_result_not_found [of "fails_once (error_status 404) []" "''atlantis''" "[]" Inr_fmt]
          empty_result_not_found [of "fails_once error_timeout []" "''atlantis''" "[]" Inr_fmt]
    by simp
qed

section \<open>Authentication\<close>

lemma js_split_nonempty: "js_split c xs \<noteq> []"
  by (induction xs) (auto split: list.splits)

lemma hd_js_split: "hd (js_split c xs) = takeWhile (\<lambda>x. x \<noteq> c) xs"
  by (induction xs) (auto split: list.splits simp: js_split_nonempty)

text \<open>The token read from a header with the prefix is the text up to the next space.\<close>

lemma bearer_token_reads_first_word:
  "bearer_token (''Bearer '' @ rest) = Some (takeWhile (\<lambda>x. x \<noteq> CHR '' '') rest)"
proof -
  have "js_split CHR '' '' (''Bearer '' @ rest) = ''Bearer'' # js_split CHR '' '' rest"
    by simp
  moreover obtain w ws where "js_split CHR '' '' rest = w # ws"
    using js_split_nonempty [of "CHR '' ''" rest] by (cases "js_split CHR '' '' rest") auto
  ultimately show ?thesis
    using hd_js_split [of "CHR '' ''" rest] by (simp add: bearer_token_def nth_opt_def)
qed

lemma authMiddleware_accepts_iff:
  "authMiddleware secret h = None \<longleftrightarrow> \<not> spec_invalid_credential secret h"
  by (auto simp: spec_invalid_credential_def authMiddleware_def split: option.splits)

text \<open>
  C8. Any two invalid credentials, whether the header is missing, lacks the \<open>Bearer \<close>
  prefix, or carries a token other than the configured secret, are answered with the same
  response: status 401 and the one fixed body. The response does not depend on the way
  the credential is invalid. The token a header carries is the one the guard reads, the
  text between the prefix and the next space.
\<close>

theorem auth_rejections_uniform:
  "spec_invalid_credential secret h1 \<Longrightarrow> spec_invalid_credential secret h2 \<Longrightarrow>
   authMiddleware secret h1 = authMiddleware secret h2 \<and>
   authMiddleware secret h1 = Some unauthorized \<and>
   status unauthorized = 401 \<and>
   content unauthorized = JsonBody (JObj [(''error'', JStr msg_unauthorized)])"
  by (auto simp: spec_invalid_credential_def authMiddleware_def unauthorized_def split: option.splits)

theorem auth_rejections_uniform_witness:
  "spec_invalid_credential ''secrettoken123'' None
   \<and> spec_invalid_credential ''secrettoken123'' (Some ''secrettoken123'')
   \<and> spec_invalid_credential ''secrettoken123'' (Some ''Bearer wrong'')
   \<and> authMiddleware ''secrettoken123'' None = Some unauthorized
   \<and> authMiddleware ''secrettoken123'' (Some ''secrettoken123'') = Some unauthorized
   \<and> authMiddleware ''secrettoken123'' (Some ''Bearer wrong'') = Some unauthorized
   \<and> authMiddleware ''secrettoken123'' (Some ''Bearer secrettoken123'') = None"
proof -
  have a: "spec_invalid_credential ''secrettoken123'' None"
    by (simp add: spec_invalid_credential_def)
  have b: "spec_invalid_credential ''secrettoken123'' (Some ''secrettoken123'')"
    by (simp add: spec_invalid_credential_def)
  have c: "spec_invalid_credential ''secrettoken123'' (Some ''Bearer wrong'')"
    by (simp add: spec_invalid_credential_def bearer_token_def nth_opt_def)
  have d: "authMiddleware ''secrettoken123'' (Some ''Bearer secrettoken123'') = None"
    by (simp add: authMiddleware_def bearer_token_def nth_opt_def)
  show ?thesis
    using a b c d auth_rejections_uniform [OF a b] auth_rejections_uniform [OF b c]
          auth_rejections_uniform [OF c a]
    by simp
qed

section \<open>Search\<close>








section \<open>Pagination\<close>





section \<open>Field selection\<close>

lemma select_field_lookup:
  "map_of (select_field cd f acc) k =
     (if k = f \<and> f \<noteq> ''__proto__'' \<and> (\<exists>v. map_of cd f = Some v \<and> truthy v)
      then map_of cd f else map_of acc k)"
  by (auto simp: select_field_def update_conv' split: option.splits)

lemma fold_select_lookup:
  "map_of (fold (select_field cd) fs acc) k =
     (if k \<in> set fs \<and> k \<noteq> ''__proto__'' \<and> (\<exists>v. map_of cd k = Some v \<and> truthy v)
      then map_of cd k else map_of acc k)"
proof (induction fs arbitrary: acc)
  case Nil
  show ?case by simp
next
  case (Cons f fs)
  show ?case
    by (simp only: fold_simps Cons.IH select_field_lookup) auto
qed

text \<open>
  What the selection keeps: the requested names that the record owns with a truthy value
  (and that are not \<open>__proto__\<close>), each with the record's value. It never fails.
\<close>

lemma selectFields_lookup:
  "map_of (selectFields cd fs) k =
     (if k \<in> set (js_split CHR '','' fs) \<and> k \<noteq> ''__proto__'' \<and>
         (\<exists>v. map_of cd k = Some v \<and> truthy v)
      then map_of cd k else None)"
  by (auto simp: selectFields_def fold_select_lookup)

text \<open>
  C2. The selection should return exactly the requested fields that are present on the
  record. The code tests the field's value instead of its presence: for Brazil, whose
  record has \<open>landlocked: false\<close>, the request \<open>fields=cca2,landlocked\<close> is answered with
  \<open>cca2\<close> alone, although \<open>landlocked\<close> is requested and present.
\<close>

theorem selectFields_drops_falsy:
  "''landlocked'' \<in> set (js_split CHR '','' ''cca2,landlocked'')
   \<and> ''landlocked'' \<in> dom (map_of br)
   \<and> ''landlocked'' \<notin> dom (map_of (selectFields br ''cca2,landlocked''))
   \<and> countryDetailsA (Inr (Some [br])) (Some ''cca2,landlocked'')
       = \<lparr>status = 200, content = JsonBody (JObj [(''cca2'', JStr ''BR'')])\<rparr>"
  by (simp add: countryDetailsA_def selectFields_def select_field_def br_def)

section \<open>The detail handler of variant A: empty results\<close>

text \<open>
  C10, as amended. In variant A, when the upstream request succeeds with an empty array,
  the handler reads element 0 of it, which is \<open>undefined\<close>. Without a \<open>fields\<close> parameter
  (or with an empty one) it answers status 200 with no body; with a non-empty \<open>fields\<close>
  parameter the property read on \<open>undefined\<close> throws and the answer is the generic 500.
  In neither case is the answer a 404; only the handler of variant B checks for the
  empty result, and answers it with 404.
\<close>

theorem countryDetailsA_empty_array:
  "countryDetailsA (Inr (Some [])) fields_q =
     (if fields_q = None \<or> fields_q = Some [] then \<lparr>status = 200, content = NoBody\<rparr>
      else \<lparr>status = 500, content = JsonBody (JObj [(''error'', JStr msg_internal)])\<rparr>)
   \<and> status (countryDetailsA (Inr (Some [])) fields_q) \<noteq> 404
   \<and> (fst (fetchByName tr name reqs) = Inr (Some []) \<longrightarrow>
        status (fst (countryDetailsB tr fmt name reqs)) = 404)"
  by (auto simp: countryDetailsA_def handleApiError_def TypeError_def countryDetailsB_def
                 not_found_empty_def
           split: option.splits prod.splits)

theorem countryDetailsA_empty_array_witness:
  "countryDetailsA (Inr (Some [])) None = \<lparr>status = 200, content = NoBody\<rparr>
   \<and> status (countryDetailsA (Inr (Some [])) (Some ''name,capital'')) = 500
   \<and> fst (fetchByName (fails_once (error_status 404) []) ''atlantis'' []) = Inr (Some [])
   \<and> status (fst (countryDetailsB (fails_once (error_status 404) []) Inr_fmt ''atlantis'' [])) = 404"
proof -
  have a: "fst (fetchByName (fails_once (error_status 404) []) ''atlantis'' []) = Inr (Some [])"
    by (simp add: fetchByName_def axios_get_def fails_once_def error_status_def retryable_def)
  show ?thesis
    using a
          countryDetailsA_empty_array
            [of None "fails_once (error_status 404) []" "''atlantis''" "[]" Inr_fmt]
          countryDetailsA_empty_array
            [of "Some ''name,capital''" "fails_once (error_status 404) []" "''atlantis''" "[]" Inr_fmt]
    by simp
qed

text \<open>With a \<open>fields\<close> parameter the answer to an empty upstream array is not status 200.\<close>

theorem countryDetailsA_empty_array_fields:
  "status (countryDetailsA (Inr (Some [])) (Some ''name'')) = 500
   \<and> status (countryDetailsA (Inr (Some [])) (Some ''name'')) \<noteq> 200"
  by (simp add: countryDetailsA_def handleApiError_def TypeError_def)

end
